theory Spec2Isabelle
  imports Main "HOL-Library.AList"
begin

section \<open>Data model (src/search/search.py, src/search/fetcher.py, src/search/llm.py)\<close>

text \<open>
  Strings are byte strings (UTF-8). Every exception of the model is an instance of
  Python's \<^verbatim>\<open>Exception\<close>, which is what the three \<^verbatim>\<open>except Exception\<close> clauses
  of \<^verbatim>\<open>OmniSearchService\<close> catch. \<open>OtherError\<close> stands for what a collaborator raises
  (an HTTP error, a timeout, a refused connection).
\<close>

datatype py_exception =
    ValueError string
  | ValidationError string
  | ResponseError string
  | OtherError string

text \<open>\<^verbatim>\<open>class SearchResult(BaseModel)\<close>: \<open>content\<close> and \<open>index\<close> default to None.\<close>

record SearchResult =
  title :: string
  link :: string
  snippet :: string
  content :: "string option"
  source_engine :: string
  index :: "int option"

text \<open>\<^verbatim>\<open>class FetchedContent(BaseModel)\<close>.\<close>

record FetchedContent =
  url :: string
  raw_content :: string
  clean_text :: string
  status_code :: int
  error :: string

text \<open>
  The keyword arguments \<^verbatim>\<open>**kwargs\<close> that \<^verbatim>\<open>search\<close> reads and hands on to every
  engine: a key that is absent is \<open>None\<close>.
\<close>

record kwargs =
  kw_max_results :: "int option"
  kw_fetch_content :: "bool option"

text \<open>
  The collaborators are the abstract classes of the source. An engine
  (\<^verbatim>\<open>SearchEngine.search\<close>) maps a query and the keyword arguments to the list of results
  it builds, or raises; each adapter of the source builds its results afresh, one object
  per item, so a result is a value here. A fetcher (\<^verbatim>\<open>ContentFetcher.fetch\<close>) maps a URL
  to the fetched page, or raises. A completion client (\<^verbatim>\<open>LLMClient.completion\<close>) maps
  the role-tagged messages to a reply, of which the code reads
  \<^verbatim>\<open>choices[i].message.content\<close>, or raises.
\<close>

type_synonym SearchEngine = "string \<Rightarrow> kwargs \<Rightarrow> py_exception + SearchResult list"

type_synonym ContentFetcher = "string \<Rightarrow> py_exception + FetchedContent"

type_synonym message = "string \<times> string"

record ChatCompletion =
  choices :: "string option list"

type_synonym LLMClient = "message list \<Rightarrow> py_exception + ChatCompletion"

text \<open>
  \<^verbatim>\<open>class OmniSearchService\<close>. The registry \<^verbatim>\<open>self.engines\<close> is a Python dict:
  keys are unique and iteration follows insertion order, so it is an association list.
\<close>

record OmniSearchService =
  engines :: "(string \<times> SearchEngine) list"
  fetcher :: ContentFetcher
  llm_cli :: LLMClient

text \<open>
  The order of the calls to the collaborators is recorded in a log: an engine's search
  being awaited (search.py line 145), and one \<^verbatim>\<open>asyncio.gather\<close> over the enrichment
  tasks of a list of results (line 185), which starts the tasks for these links together
  and waits for all of them.
\<close>

datatype event =
    EngineSearch string string
  | Gather "string list"

section \<open>The orchestrator (src/search/search.py, class OmniSearchService)\<close>

definition OmniSearchService_init :: "ContentFetcher \<Rightarrow> LLMClient \<Rightarrow> OmniSearchService" where
  "OmniSearchService_init f l = \<lparr>engines = [], fetcher = f, llm_cli = l\<rparr>"

text \<open>
  \<^verbatim>\<open>self.engines[name] = engine\<close>: a new key goes last, a known key keeps its place and
  gets the new engine.
\<close>

definition add_engine :: "string \<Rightarrow> SearchEngine \<Rightarrow> OmniSearchService \<Rightarrow> OmniSearchService" where
  "add_engine name engine svc = svc\<lparr>engines := AList.update name engine (engines svc)\<rparr>"

text \<open>The system message of the completion call (line 172), as its UTF-8 bytes.\<close>

definition system_prompt :: string where
  "system_prompt =
    [CHR 0xE4, CHR 0xBD, CHR 0xA0, CHR 0xE6, CHR 0x98, CHR 0xAF, CHR 0xE4, CHR 0xB8, CHR 0x80,
      CHR 0xE4, CHR 0xB8, CHR 0xAA]
    @ '' HTML ''
    @ [CHR 0xE6, CHR 0x95, CHR 0xB0, CHR 0xE6, CHR 0x8D, CHR 0xAE, CHR 0xE6, CHR 0xB8, CHR 0x85,
      CHR 0xE7, CHR 0x90, CHR 0x86, CHR 0xE5, CHR 0x91, CHR 0x98, CHR 0xEF, CHR 0xBC, CHR 0x8C,
      CHR 0xE8, CHR 0xAF, CHR 0xB7, CHR 0xE6, CHR 0x95, CHR 0xB4, CHR 0xE7, CHR 0x90, CHR 0x86,
      CHR 0xE6, CHR 0x88, CHR 0x91, CHR 0xE6, CHR 0x8F, CHR 0x90, CHR 0xE4, CHR 0xBE, CHR 0x9B,
      CHR 0xE7, CHR 0x9A, CHR 0x84]
    @ '' HTML ''
    @ [CHR 0xE6, CHR 0x96, CHR 0x87, CHR 0xE6, CHR 0x9C, CHR 0xAC, CHR 0xE4, CHR 0xB8, CHR 0xAD,
      CHR 0xE7, CHR 0x9A, CHR 0x84, CHR 0xE6, CHR 0x9C, CHR 0x89, CHR 0xE6, CHR 0x95, CHR 0x88,
      CHR 0xE4, CHR 0xBF, CHR 0xA1, CHR 0xE6, CHR 0x81, CHR 0xAF, CHR 0xEF, CHR 0xBC, CHR 0x8C,
      CHR 0xE5, CHR 0xA6, CHR 0x82, CHR 0xE6, CHR 0x9E, CHR 0x9C, CHR 0xE6, CHR 0xB2, CHR 0xA1,
      CHR 0xE6, CHR 0x9C, CHR 0x89, CHR 0xE5, CHR 0x88, CHR 0x99, CHR 0xE8, CHR 0xBF, CHR 0x94,
      CHR 0xE5, CHR 0x9B, CHR 0x9E]
    @ '' None''"

text \<open>
  \<^verbatim>\<open>_fetch_content_by_search_result\<close> (lines 164-180). Everything raised inside the
  \<^verbatim>\<open>try\<close> (by the fetcher, by the completion call, by \<^verbatim>\<open>c.choices[0]\<close> on a reply
  with no choice) ends in the \<^verbatim>\<open>except\<close> branch, which returns \<open>r\<close> as it is.
\<close>

definition priv_fetch_content_by_search_result :: "OmniSearchService \<Rightarrow> SearchResult \<Rightarrow> SearchResult" where
  "priv_fetch_content_by_search_result svc r =
    (case fetcher svc (link r) of
       Inl e \<Rightarrow> r
     | Inr page \<Rightarrow>
        (case llm_cli svc [(''system'', system_prompt), (''user'', clean_text page)] of
           Inl e \<Rightarrow> r
         | Inr c \<Rightarrow>
            (case choices c of
               [] \<Rightarrow> r
             | ch # _ \<Rightarrow> r\<lparr>content := ch\<rparr>)))"

text \<open>
  What \<^verbatim>\<open>_fetch_content\<close> is called with: a list of results, or (from
  \<^verbatim>\<open>search_by_engine\<close>, which does not await the engine) a coroutine object.
\<close>

datatype results_arg =
    ResultList "SearchResult list"
  | Coroutine

text \<open>
  \<^verbatim>\<open>_fetch_content\<close> (lines 182-189): one task per result, all awaited by one
  \<^verbatim>\<open>asyncio.gather\<close>, whose value lists the tasks' results in the order of the tasks.
  No task raises, since each catches what its body raises (printing to the standard
  output is not modelled). Iterating a coroutine object raises \<^verbatim>\<open>TypeError\<close> before any
  task exists; the \<^verbatim>\<open>except\<close> branch then returns the empty list.
\<close>

definition priv_fetch_content :: "OmniSearchService \<Rightarrow> results_arg \<Rightarrow> SearchResult list \<times> event list" where
  "priv_fetch_content svc arg =
    (case arg of
       ResultList results \<Rightarrow>
         (map (priv_fetch_content_by_search_result svc) results, [Gather (map link results)])
     | Coroutine \<Rightarrow> ([], []))"

text \<open>Lines 146-147: \<^verbatim>\<open>for i, r in enumerate(results): r.index = i\<close>.\<close>

definition assign_index :: "SearchResult list \<Rightarrow> SearchResult list" where
  "assign_index results = map (\<lambda>(i, r). r\<lparr>index := Some (int i)\<rparr>) (enumerate 0 results)"

text \<open>\<^verbatim>\<open>kwargs.get("fetch_content", False)\<close>.\<close>

definition get_fetch_content :: "kwargs \<Rightarrow> bool" where
  "get_fetch_content kw = (case kw_fetch_content kw of None \<Rightarrow> False | Some b \<Rightarrow> b)"

text \<open>
  \<^verbatim>\<open>search\<close> (lines 140-153). The loop over \<^verbatim>\<open>self.engines.items()\<close> carries
  \<^verbatim>\<open>all_results\<close> and the log; an engine that raises leaves \<^verbatim>\<open>all_results\<close> as it was.
\<close>

fun search_loop ::
  "OmniSearchService \<Rightarrow> string \<Rightarrow> kwargs \<Rightarrow> (string \<times> SearchEngine) list \<Rightarrow>
   SearchResult list \<times> event list \<Rightarrow> SearchResult list \<times> event list" where
  "search_loop svc query kw [] (all_results, log) = (all_results, log)"
| "search_loop svc query kw ((engine_name, engine) # rest) (all_results, log) =
    (case engine query kw of
       Inl e \<Rightarrow> search_loop svc query kw rest (all_results, log @ [EngineSearch engine_name query])
     | Inr results \<Rightarrow>
        (let indexed = assign_index results in
         if get_fetch_content kw then
           (let (enriched, evs) = priv_fetch_content svc (ResultList indexed) in
            search_loop svc query kw rest
              (all_results @ enriched, log @ [EngineSearch engine_name query] @ evs))
         else
           search_loop svc query kw rest
             (all_results @ indexed, log @ [EngineSearch engine_name query])))"

definition search :: "OmniSearchService \<Rightarrow> string \<Rightarrow> kwargs \<Rightarrow> SearchResult list \<times> event list" where
  "search svc query kw = search_loop svc query kw (engines svc) ([], [])"

text \<open>
  \<^verbatim>\<open>search_by_engine\<close> (lines 155-162). The call returns the outcome and the service as
  it leaves it. Line 159 calls the engine's \<^verbatim>\<open>search\<close> without \<^verbatim>\<open>await\<close>: every
  adapter declares it \<^verbatim>\<open>async def\<close>, so \<^verbatim>\<open>results\<close> is a coroutine object whose body
  never runs, and it is what is returned, or handed to \<^verbatim>\<open>_fetch_content\<close>.
\<close>

definition search_by_engine ::
  "OmniSearchService \<Rightarrow> string \<Rightarrow> string \<Rightarrow> kwargs \<Rightarrow>
   (py_exception + results_arg) \<times> OmniSearchService" where
  "search_by_engine svc engine_name query kw =
    (if engine_name \<notin> fst ` set (engines svc) then
       (Inl (ValueError (''Engine '' @ engine_name @ '' not configured'')), svc)
     else if get_fetch_content kw then
       (Inr (ResultList (fst (priv_fetch_content svc Coroutine))), svc)
     else (Inr Coroutine, svc))"

section \<open>The cache (src/cache/redis.py)\<close>

text \<open>
  \<^verbatim>\<open>RedisClient.get\<close> and \<^verbatim>\<open>RedisClient.setex\<close> pass through to the Redis server. The
  server is the string store with expiry that the specification names as the cache
  collaborator: a key holds a value and the instant, in seconds, at which it expires;
  \<^verbatim>\<open>SETEX\<close> refuses an expiry that is not positive.
\<close>

type_synonym redis_db = "string \<Rightarrow> (nat \<times> string) option"

definition RedisClient_get :: "nat \<Rightarrow> redis_db \<Rightarrow> string \<Rightarrow> string option" where
  "RedisClient_get now db k =
    (case db k of
       None \<Rightarrow> None
     | Some (expires, v) \<Rightarrow> if now < expires then Some v else None)"

definition RedisClient_setex ::
  "nat \<Rightarrow> redis_db \<Rightarrow> string \<Rightarrow> int \<Rightarrow> string \<Rightarrow> py_exception + redis_db" where
  "RedisClient_setex now db k ttl v =
    (if ttl \<le> 0 then Inl (ResponseError ''invalid expire time in setex'')
     else Inr (db(k \<mapsto> (now + nat ttl, v))))"

section \<open>The HTTP layer (src/main.py)\<close>

text \<open>
  \<^verbatim>\<open>class SearchEngineConfig(BaseModel)\<close> (search.py lines 20-23): \<^verbatim>\<open>api_key: str\<close>
  is required, so constructing a configuration from an environment variable that is
  not set (\<^verbatim>\<open>api_key=None\<close>) raises a validation error.
\<close>

record SearchEngineConfig =
  api_key :: string
  endpoint :: string
  params :: "(string \<times> string option) list"

definition SearchEngineConfig_new ::
  "string option \<Rightarrow> (string \<times> string option) list \<Rightarrow> py_exception + SearchEngineConfig" where
  "SearchEngineConfig_new k ps =
    (case k of
       None \<Rightarrow> Inl (ValidationError ''api_key'')
     | Some s \<Rightarrow> Inr \<lparr>api_key = s, endpoint = '''', params = ps\<rparr>)"

text \<open>The environment variables that main.py reads; \<open>None\<close> is a variable that is not set.\<close>

record environ =
  API_KEY :: "string option"
  MODEL_NAME :: "string option"
  GOOGLE_API_KEY :: "string option"
  GOOGLE_CX :: "string option"
  SEARCH_TTL :: "string option"

text \<open>
  What main.py takes from Python and from libraries: \<^verbatim>\<open>hashlib.md5(s.encode()).hexdigest()\<close>,
  \<^verbatim>\<open>str.strip\<close>, \<^verbatim>\<open>str\<close> of a list, \<^verbatim>\<open>int\<close> of a string (which may raise),
  \<^verbatim>\<open>json.dumps\<close> of the dumped results, \<^verbatim>\<open>json.loads\<close> of a cached blob read back as
  the response's \<^verbatim>\<open>list[SearchResult]\<close> (which may raise), the search of the two
  adapters over the network, the page fetcher and the completion client for a model
  name.
\<close>

record collaborators =
  md5_hexdigest :: "string \<Rightarrow> string"
  py_strip :: "string \<Rightarrow> string"
  py_str_list :: "string list \<Rightarrow> string"
  py_int :: "string \<Rightarrow> py_exception + int"
  json_dumps :: "SearchResult list \<Rightarrow> string"
  json_loads :: "string \<Rightarrow> py_exception + SearchResult list"
  GoogleSearch :: "SearchEngineConfig \<Rightarrow> SearchEngine"
  DuckDuckGoSearch :: "SearchEngineConfig \<Rightarrow> SearchEngine"
  RequestsHtmlFetcher :: ContentFetcher
  GPTClient :: "string \<Rightarrow> LLMClient"

record HTTPAuthorizationCredentials =
  scheme :: string
  credentials :: string

datatype HTTPException = HTTPException nat string

text \<open>
  Line 21, \<^verbatim>\<open>security = HTTPBearer()\<close>: FastAPI's bearer dependency with
  \<^verbatim>\<open>auto_error\<close> left at its default \<^verbatim>\<open>True\<close>. It reads the \<^verbatim>\<open>Authorization\<close> header,
  splits it at the first space into scheme and credentials, raises 403 when the header,
  the scheme or the credentials are missing or empty, raises 403 when the scheme in
  lower case is not \<^verbatim>\<open>bearer\<close>, and returns both otherwise.
\<close>

definition get_authorization_scheme_param :: "string option \<Rightarrow> string \<times> string" where
  "get_authorization_scheme_param authorization_header_value =
    (case authorization_header_value of
       None \<Rightarrow> ('''', '''')
     | Some h \<Rightarrow>
        if h = '''' then ('''', '''')
        else (takeWhile (\<lambda>c. c \<noteq> CHR '' '') h, drop 1 (dropWhile (\<lambda>c. c \<noteq> CHR '' '') h)))"

definition ascii_lower :: "char \<Rightarrow> char" where
  "ascii_lower c =
    (case map_of (zip ''ABCDEFGHIJKLMNOPQRSTUVWXYZ'' ''abcdefghijklmnopqrstuvwxyz'') c of
       None \<Rightarrow> c
     | Some l \<Rightarrow> l)"

definition security :: "string option \<Rightarrow> HTTPException + HTTPAuthorizationCredentials" where
  "security authorization =
    (let (sch, cred) = get_authorization_scheme_param authorization in
     if authorization = None \<or> authorization = Some '''' \<or> sch = '''' \<or> cred = '''' then
       Inl (HTTPException 403 ''Not authenticated'')
     else if map ascii_lower sch \<noteq> ''bearer'' then
       Inl (HTTPException 403 ''Invalid authentication credentials'')
     else Inr \<lparr>scheme = sch, credentials = cred\<rparr>)"

text \<open>
  \<^verbatim>\<open>auth\<close> (lines 24-33), given the path of the request and the credentials that the
  dependency \<^verbatim>\<open>Depends(security)\<close> returned.
\<close>

definition auth :: "environ \<Rightarrow> string \<Rightarrow> HTTPAuthorizationCredentials \<Rightarrow> HTTPException + unit" where
  "auth ev path c =
    (let white_list = [''/'', ''/v1/health''] in
     if path \<in> set white_list then Inr ()
     else if (case API_KEY ev of None \<Rightarrow> '''' | Some k \<Rightarrow> k) = '''' then Inr ()
     else if scheme c \<noteq> ''Bearer'' \<or> Some (credentials c) \<noteq> API_KEY ev then
       Inl (HTTPException 403 ''Forbidden'')
     else Inr ())"

text \<open>\<^verbatim>\<open>class SearchRequest\<close> and \<^verbatim>\<open>class SearchResponse\<close> (lines 55-64).\<close>

record SearchRequest =
  query :: string
  max_results :: int
  fetch_content :: bool
  search_engines :: "string list"

record SearchResponse =
  data :: "SearchResult list"
  code :: int
  message :: string

text \<open>Python's \<^verbatim>\<open>str\<close> of an integer and of a truth value, as the f-string of line 69 formats them.\<close>

function str_nat :: "nat \<Rightarrow> string" where
  "str_nat n =
    (if n < 10 then [char_of (48 + n)] else str_nat (n div 10) @ [char_of (48 + n mod 10)])"
  by pat_completeness auto
termination
  by (relation "measure id") auto

definition str_int :: "int \<Rightarrow> string" where
  "str_int i = (if i < 0 then CHR ''-'' # str_nat (nat (- i)) else str_nat (nat i))"

definition str_bool :: "bool \<Rightarrow> string" where
  "str_bool b = (if b then ''True'' else ''False'')"

text \<open>Lines 69-70: the request signature and the key under which it is cached.\<close>

definition cache_key :: "collaborators \<Rightarrow> SearchRequest \<Rightarrow> string" where
  "cache_key co req =
    ''search_api.search.'' @
      md5_hexdigest co
        (py_strip co (query req) @ str_int (max_results req) @ str_bool (fetch_content req) @
         py_str_list co (search_engines req))"

text \<open>
  Lines 78-95: the loop over \<^verbatim>\<open>req.search_engines\<close>. The branch for \<^verbatim>\<open>"bing"\<close> is
  commented out in the source.
\<close>

fun register_engines ::
  "collaborators \<Rightarrow> environ \<Rightarrow> string list \<Rightarrow> OmniSearchService \<Rightarrow>
   py_exception + OmniSearchService" where
  "register_engines co ev [] svc = Inr svc"
| "register_engines co ev (engine # rest) svc =
    (if engine = ''google'' then
       (case SearchEngineConfig_new (GOOGLE_API_KEY ev) [(''cx'', GOOGLE_CX ev)] of
          Inl e \<Rightarrow> Inl e
        | Inr google_config \<Rightarrow>
            register_engines co ev rest
              (add_engine ''google'' (GoogleSearch co google_config) svc))
     else if engine = ''duckduckgo'' then
       (case SearchEngineConfig_new (Some '''') [(''region'', Some ''cn-zh'')] of
          Inl e \<Rightarrow> Inl e
        | Inr duckduckgo_config \<Rightarrow>
            register_engines co ev rest
              (add_engine ''duckduckgo'' (DuckDuckGoSearch co duckduckgo_config) svc))
     else register_engines co ev rest svc)"

text \<open>\<^verbatim>\<open>int(os.environ.get("SEARCH_TTL", 30))\<close> and \<^verbatim>\<open>os.getenv("MODEL_NAME", "gpt-4o-mini")\<close>.\<close>

definition search_ttl :: "collaborators \<Rightarrow> environ \<Rightarrow> py_exception + int" where
  "search_ttl co ev = (case SEARCH_TTL ev of None \<Rightarrow> Inr 30 | Some s \<Rightarrow> py_int co s)"

definition model_name :: "environ \<Rightarrow> string" where
  "model_name ev = (case MODEL_NAME ev of None \<Rightarrow> ''gpt-4o-mini'' | Some m \<Rightarrow> m)"

definition success :: "SearchResult list \<Rightarrow> SearchResponse" where
  "success d = \<lparr>data = d, code = 0, message = ''success''\<rparr>"

text \<open>
  The handler of \<^verbatim>\<open>POST /v1/search\<close> (lines 66-107), once its dependency \<^verbatim>\<open>auth\<close> has
  passed. The cache is read at the instant \<open>now\<close>; the fan-out takes \<open>elapsed\<close> seconds,
  after which the cache is written. The handler returns the response or the exception
  that leaves it, the cache, and the log of the collaborators it called.
  \<^verbatim>\<open>if cached:\<close> holds for a value that is neither \<^verbatim>\<open>None\<close> nor empty.
\<close>

definition post_v1_search ::
  "collaborators \<Rightarrow> environ \<Rightarrow> nat \<Rightarrow> nat \<Rightarrow> SearchRequest \<Rightarrow> redis_db \<Rightarrow>
   (py_exception + SearchResponse) \<times> redis_db \<times> event list" where
  "post_v1_search co ev now elapsed req db =
    (let key = cache_key co req;
         cached = RedisClient_get now db key in
     if cached \<noteq> None \<and> cached \<noteq> Some '''' then
       (case json_loads co (the cached) of
          Inl e \<Rightarrow> (Inl e, db, [])
        | Inr d \<Rightarrow> (Inr (success d), db, []))
     else
       (case register_engines co ev (search_engines req)
               (OmniSearchService_init (RequestsHtmlFetcher co) (GPTClient co (model_name ev))) of
          Inl e \<Rightarrow> (Inl e, db, [])
        | Inr svc \<Rightarrow>
           (let (results, log) =
                  search svc (py_strip co (query req))
                    \<lparr>kw_max_results = Some (max_results req),
                     kw_fetch_content = Some (fetch_content req)\<rparr> in
            if length results > 0 then
              (case search_ttl co ev of
                 Inl e \<Rightarrow> (Inl e, db, log)
               | Inr ttl \<Rightarrow>
                  (case RedisClient_setex (now + elapsed) db key ttl (json_dumps co results) of
                     Inl e \<Rightarrow> (Inl e, db, log)
                   | Inr db' \<Rightarrow> (Inr (success results), db', log)))
            else (Inr (success results), db, log))))"

text \<open>
  The application: the three routes of main.py. \<^verbatim>\<open>GET /\<close> (lines 45-47) and
  \<^verbatim>\<open>HEAD /v1/health\<close> (lines 50-52) declare no dependency. \<^verbatim>\<open>POST /v1/search\<close>
  depends on \<^verbatim>\<open>auth\<close>, which depends on \<^verbatim>\<open>security\<close>: the framework calls
  \<^verbatim>\<open>security\<close> first, then \<^verbatim>\<open>auth\<close>, then the handler, and an \<^verbatim>\<open>HTTPException\<close>
  raised on the way is the reply. An exception that leaves the handler is a 500. Any
  other request is answered by the framework without a handler of this repository.
\<close>

datatype http_method = GET | HEAD | POST | OtherMethod string

record Request =
  http_method :: http_method
  url_path :: string
  authorization :: "string option"
  json_body :: SearchRequest

datatype reply_body = Text string | NoBody | Json SearchResponse | Detail string

datatype reply = Reply nat reply_body | NotRouted

definition app ::
  "collaborators \<Rightarrow> environ \<Rightarrow> nat \<Rightarrow> nat \<Rightarrow> Request \<Rightarrow> redis_db \<Rightarrow>
   reply \<times> redis_db \<times> event list" where
  "app co ev now elapsed rq db =
    (if http_method rq = GET \<and> url_path rq = ''/'' then
       (Reply 200 (Text (''Hello World'' @ [CHR 0x0A])), db, [])
     else if http_method rq = HEAD \<and> url_path rq = ''/v1/health'' then
       (Reply 200 NoBody, db, [])
     else if http_method rq = POST \<and> url_path rq = ''/v1/search'' then
       (case security (authorization rq) of
          Inl (HTTPException st d) \<Rightarrow> (Reply st (Detail d), db, [])
        | Inr c \<Rightarrow>
           (case auth ev (url_path rq) c of
              Inl (HTTPException st d) \<Rightarrow> (Reply st (Detail d), db, [])
            | Inr u \<Rightarrow>
               (case post_v1_search co ev now elapsed (json_body rq) db of
                  (Inl e, db', log) \<Rightarrow> (Reply 500 (Detail ''Internal Server Error''), db', log)
                | (Inr resp, db', log) \<Rightarrow> (Reply 200 (Json resp), db', log))))
     else (NotRouted, db, []))"

section \<open>The fan-out as the specification words it\<close>

text \<open>
  Section 4.1 of the specification: every registered engine is searched, in insertion
  order, an engine that raises contributing nothing and the results of one that
  succeeds being numbered from 0; after all engines complete, if enrichment is
  requested, every result across all engines is enriched, as one batch under one
  barrier, before the combined list is returned. \<open>spec_search\<close> follows these words; it
  is compared with \<open>search\<close>, which follows the source.
\<close>

fun spec_fan_out ::
  "string \<Rightarrow> kwargs \<Rightarrow> (string \<times> SearchEngine) list \<Rightarrow> SearchResult list \<times> event list" where
  "spec_fan_out q kw [] = ([], [])"
| "spec_fan_out q kw ((engine_name, engine) # rest) =
    (let (more, evs) = spec_fan_out q kw rest in
     case engine q kw of
       Inl e \<Rightarrow> (more, EngineSearch engine_name q # evs)
     | Inr results \<Rightarrow> (assign_index results @ more, EngineSearch engine_name q # evs))"

definition spec_search ::
  "OmniSearchService \<Rightarrow> string \<Rightarrow> kwargs \<Rightarrow> SearchResult list \<times> event list" where
  "spec_search svc q kw =
    (let (combined, evs) = spec_fan_out q kw (engines svc) in
     if get_fetch_content kw then
       (let (enriched, evs') = priv_fetch_content svc (ResultList combined) in
        (enriched, evs @ evs'))
     else (combined, evs))"

section \<open>Stub collaborators for the concrete runs\<close>

definition stub_result :: "string \<Rightarrow> string \<Rightarrow> SearchResult" where
  "stub_result eng lnk =
    \<lparr>title = ''t'', link = lnk, snippet = ''s'', content = None, source_engine = eng,
     index = None\<rparr>"

definition stub_engine :: "SearchResult list \<Rightarrow> SearchEngine" where
  "stub_engine rs = (\<lambda>q kw. Inr rs)"

definition failing_engine :: SearchEngine where
  "failing_engine = (\<lambda>q kw. Inl (OtherError ''503 Service Unavailable''))"

definition stub_fetcher :: ContentFetcher where
  "stub_fetcher =
    (\<lambda>u. Inr \<lparr>url = u, raw_content = ''<p>hi</p>'', clean_text = ''hi'', status_code = 200,
              error = ''''\<rparr>)"

definition failing_fetcher :: ContentFetcher where
  "failing_fetcher = (\<lambda>u. Inl (OtherError ''connection refused''))"

definition stub_llm :: LLMClient where
  "stub_llm = (\<lambda>ms. Inr \<lparr>choices = [Some ''summary'']\<rparr>)"

definition failing_llm :: LLMClient where
  "failing_llm = (\<lambda>ms. Inl (OtherError ''rate limit''))"

definition no_fetch :: kwargs where
  "no_fetch = \<lparr>kw_max_results = Some 1, kw_fetch_content = Some False\<rparr>"

definition with_fetch :: kwargs where
  "with_fetch = \<lparr>kw_max_results = Some 1, kw_fetch_content = Some True\<rparr>"

definition google_results :: "SearchResult list" where
  "google_results = [stub_result ''Google'' ''http://a'', stub_result ''Google'' ''http://b'']"

definition duckduckgo_results :: "SearchResult list" where
  "duckduckgo_results = [stub_result ''DuckDuckGo'' ''http://c'']"

definition stub_svc :: OmniSearchService where
  "stub_svc =
    add_engine ''duckduckgo'' (stub_engine duckduckgo_results)
      (add_engine ''google'' (stub_engine google_results)
        (OmniSearchService_init stub_fetcher stub_llm))"

definition stub_svc_failing :: OmniSearchService where
  "stub_svc_failing =
    add_engine ''duckduckgo'' (stub_engine duckduckgo_results)
      (add_engine ''bing'' failing_engine
        (add_engine ''google'' (stub_engine google_results)
          (OmniSearchService_init stub_fetcher stub_llm)))"





section \<open>The loop of \<open>search\<close>, one engine at a time\<close>

lemma search_loop_acc:
  "search_loop svc q kw es (acc, lg) =
     (acc @ fst (search_loop svc q kw es ([], [])), lg @ snd (search_loop svc q kw es ([], [])))"
proof (induction es arbitrary: acc lg)
  case Nil
  show ?case by simp
next
  case (Cons p es)
  obtain name engine where p: "p = (name, engine)" by (cases p)
  show ?case
  proof (cases "engine q kw")
    case (Inl e)
    then show ?thesis
      using Cons.IH [of acc "lg @ [EngineSearch name q]"] Cons.IH [of "[]" "[EngineSearch name q]"]
      by (simp add: p)
  next
    case (Inr rs)
    show ?thesis
    proof (cases "get_fetch_content kw")
      case True
      obtain en evs where f: "priv_fetch_content svc (ResultList (assign_index rs)) = (en, evs)"
        by (cases "priv_fetch_content svc (ResultList (assign_index rs))")
      show ?thesis
        using Cons.IH [of "acc @ en" "lg @ [EngineSearch name q] @ evs"]
          Cons.IH [of "en" "[EngineSearch name q] @ evs"]
        by (simp add: p Inr True f)
    next
      case False
      show ?thesis
        using Cons.IH [of "acc @ assign_index rs" "lg @ [EngineSearch name q]"]
          Cons.IH [of "assign_index rs" "[EngineSearch name q]"]
        by (simp add: p Inr False)
    qed
  qed
qed

lemma search_loop_Cons_Inl:
  "engine q kw = Inl e \<Longrightarrow>
   search_loop svc q kw ((name, engine) # es) ([], []) =
     (fst (search_loop svc q kw es ([], [])),
      EngineSearch name q # snd (search_loop svc q kw es ([], [])))"
  using search_loop_acc [of svc q kw es "[]" "[EngineSearch name q]"] by simp

lemma search_loop_Cons_Inr_plain:
  "engine q kw = Inr rs \<Longrightarrow> \<not> get_fetch_content kw \<Longrightarrow>
   search_loop svc q kw ((name, engine) # es) ([], []) =
     (assign_index rs @ fst (search_loop svc q kw es ([], [])),
      EngineSearch name q # snd (search_loop svc q kw es ([], [])))"
  using search_loop_acc [of svc q kw es "assign_index rs" "[EngineSearch name q]"] by simp

lemma search_loop_Cons_Inr_fetch:
  "engine q kw = Inr rs \<Longrightarrow> get_fetch_content kw \<Longrightarrow>
   search_loop svc q kw ((name, engine) # es) ([], []) =
     (map (priv_fetch_content_by_search_result svc) (assign_index rs) @
        fst (search_loop svc q kw es ([], [])),
      EngineSearch name q # Gather (map link (assign_index rs)) #
        snd (search_loop svc q kw es ([], [])))"
  using search_loop_acc [of svc q kw es
      "map (priv_fetch_content_by_search_result svc) (assign_index rs)"
      "[EngineSearch name q, Gather (map link (assign_index rs))]"]
  by (simp add: priv_fetch_content_def Let_def)

lemma assign_index_nth:
  "assign_index rs = map (\<lambda>i. (rs ! i)\<lparr>index := Some (int i)\<rparr>) [0..<length rs]"
  by (auto simp: assign_index_def enumerate_eq_zip intro!: nth_equalityI)


lemma map_link_assign_index: "map link (assign_index rs) = map link rs"
  by (rule nth_equalityI) (simp_all add: assign_index_nth)

lemma search_loop_append:
  "fst (search_loop svc q kw (es1 @ es2) ([], [])) =
     fst (search_loop svc q kw es1 ([], [])) @ fst (search_loop svc q kw es2 ([], []))"
proof (induction es1)
  case Nil
  show ?case by simp
next
  case (Cons p es1)
  obtain name engine where p: "p = (name, engine)" by (cases p)
  show ?case
  proof (cases "engine q kw")
    case (Inl e)
    show ?thesis
      using Cons.IH Inl search_loop_Cons_Inl [of engine q kw e svc name "es1 @ es2"]
        search_loop_Cons_Inl [of engine q kw e svc name es1]
      by (simp add: p)
  next
    case (Inr rs)
    show ?thesis
    proof (cases "get_fetch_content kw")
      case True
      show ?thesis
        using Cons.IH Inr True
          search_loop_Cons_Inr_fetch [of engine q kw rs svc name "es1 @ es2"]
          search_loop_Cons_Inr_fetch [of engine q kw rs svc name es1]
        by (simp add: p)
    next
      case False
      show ?thesis
        using Cons.IH Inr False
          search_loop_Cons_Inr_plain [of engine q kw rs svc name "es1 @ es2"]
          search_loop_Cons_Inr_plain [of engine q kw rs svc name es1]
        by (simp add: p)
    qed
  qed
qed

text \<open>The loop reads the fetcher and the completion client of the service, not its registry.\<close>

lemma search_loop_svc_engines:
  "search_loop (svc\<lparr>engines := es'\<rparr>) q kw es st = search_loop svc q kw es st"
proof (induction es arbitrary: st)
  case Nil
  show ?case by (cases st) simp
next
  case (Cons p es)
  obtain name engine where p: "p = (name, engine)" by (cases p)
  obtain acc lg where st: "st = (acc, lg)" by (cases st)
  have f: "priv_fetch_content (svc\<lparr>engines := es'\<rparr>) a = priv_fetch_content svc a" for a
    by (cases a)
      (auto simp: priv_fetch_content_def priv_fetch_content_by_search_result_def
        split: sum.splits)
  show ?case
    by (simp add: p st Cons.IH f Let_def split: sum.splits prod.splits)
qed


lemma search_loop_fetch_eq:
  "get_fetch_content kw \<Longrightarrow>
   fst (search_loop svc q kw es ([], [])) =
     concat (map (\<lambda>(name, engine). case engine q kw of
         Inl e \<Rightarrow> []
       | Inr rs \<Rightarrow> map (priv_fetch_content_by_search_result svc) (assign_index rs)) es)"
proof (induction es)
  case Nil
  show ?case by simp
next
  case (Cons p es)
  obtain name engine where p: "p = (name, engine)" by (cases p)
  show ?case
  proof (cases "engine q kw")
    case (Inl e)
    show ?thesis
      using Cons Inl search_loop_Cons_Inl [of engine q kw e svc name es] by (simp add: p)
  next
    case (Inr rs)
    show ?thesis
      using Cons Inr search_loop_Cons_Inr_fetch [of engine q kw rs svc name es] by (simp add: p)
  qed
qed

lemma search_loop_fetch_log:
  "get_fetch_content kw \<Longrightarrow>
   snd (search_loop svc q kw es ([], [])) =
     concat (map (\<lambda>(name, engine). case engine q kw of
         Inl e \<Rightarrow> [EngineSearch name q]
       | Inr rs \<Rightarrow> [EngineSearch name q, Gather (map link rs)]) es)"
proof (induction es)
  case Nil
  show ?case by simp
next
  case (Cons p es)
  obtain name engine where p: "p = (name, engine)" by (cases p)
  show ?case
  proof (cases "engine q kw")
    case (Inl e)
    show ?thesis
      using Cons Inl search_loop_Cons_Inl [of engine q kw e svc name es] by (simp add: p)
  next
    case (Inr rs)
    show ?thesis
      using Cons Inr search_loop_Cons_Inr_fetch [of engine q kw rs svc name es]
      by (simp add: p map_link_assign_index)
  qed
qed

lemma spec_fan_out_eq:
  "fst (spec_fan_out q kw es) =
     concat (map (\<lambda>(name, engine). case engine q kw of
         Inl e \<Rightarrow> []
       | Inr rs \<Rightarrow> assign_index rs) es)"
  by (induction es) (auto split: sum.splits prod.splits)

lemma map_concat_engines:
  "map f (concat (map (\<lambda>(name, engine). case engine q kw of
       Inl e \<Rightarrow> []
     | Inr rs \<Rightarrow> g rs) es)) =
   concat (map (\<lambda>(name, engine). case engine q kw of
       Inl e \<Rightarrow> []
     | Inr rs \<Rightarrow> map f (g rs)) es)"
  by (induction es) (auto split: sum.splits)

lemmas stub_defs =
  stub_svc_def add_engine_def OmniSearchService_init_def stub_engine_def failing_engine_def
  stub_fetcher_def stub_llm_def failing_fetcher_def no_fetch_def with_fetch_def
  google_results_def duckduckgo_results_def stub_result_def get_fetch_content_def

lemmas run_defs =
  search_def priv_fetch_content_def priv_fetch_content_by_search_result_def assign_index_def

section \<open>Claims about the orchestrator\<close>



text \<open>
  C2. When the search of one registered engine raises, \<open>search\<close> returns the list it
  returns for the registry without that engine: the failing engine adds nothing, and
  the results of the engines before and after it keep their number, order and indices.
  The call returns a list in every case; it is the empty list when the failing engine
  is the only one.
\<close>

theorem search_failing_engine_isolated:
  assumes "engines svc = pre @ (name, engine) # post"
    and "engine q kw = Inl e"
  shows "fst (search svc q kw) = fst (search (svc\<lparr>engines := pre @ post\<rparr>) q kw)
       \<and> (pre = [] \<and> post = [] \<longrightarrow> fst (search svc q kw) = [])"
proof -
  have "fst (search_loop svc q kw ((name, engine) # post) ([], [])) =
        fst (search_loop svc q kw post ([], []))"
    using assms(2) search_loop_Cons_Inl [of engine q kw e svc name post] by simp
  then have "fst (search_loop svc q kw (pre @ (name, engine) # post) ([], [])) =
        fst (search_loop svc q kw (pre @ post) ([], []))"
    by (simp add: search_loop_append)
  then have a: "fst (search svc q kw) = fst (search (svc\<lparr>engines := pre @ post\<rparr>) q kw)"
    by (simp add: search_def assms(1) search_loop_svc_engines)
  have "fst (search (svc\<lparr>engines := []\<rparr>) q kw) = []"
    by (simp add: search_def)
  with a show ?thesis by auto
qed

theorem search_failing_engine_isolated_witness:
  "engines stub_svc_failing =
     [(''google'', stub_engine google_results)] @ (''bing'', failing_engine) #
     [(''duckduckgo'', stub_engine duckduckgo_results)] \<and>
   failing_engine ''weather'' with_fetch = Inl (OtherError ''503 Service Unavailable'') \<and>
   fst (search stub_svc_failing ''weather'' with_fetch) =
     fst (search (stub_svc_failing\<lparr>engines :=
       [(''google'', stub_engine google_results)] @
       [(''duckduckgo'', stub_engine duckduckgo_results)]\<rparr>) ''weather'' with_fetch) \<and>
   length (fst (search stub_svc_failing ''weather'' with_fetch)) = 3"
proof -
  have h1: "engines stub_svc_failing =
     [(''google'', stub_engine google_results)] @ (''bing'', failing_engine) #
     [(''duckduckgo'', stub_engine duckduckgo_results)]"
    by (simp add: stub_svc_failing_def add_engine_def OmniSearchService_init_def)
  have h2: "failing_engine ''weather'' with_fetch = Inl (OtherError ''503 Service Unavailable'')"
    by (simp add: failing_engine_def)
  have h3: "length (fst (search stub_svc_failing ''weather'' with_fetch)) = 3"
    by (simp add: stub_svc_failing_def stub_defs run_defs)
  show ?thesis
    using h1 h2 h3
      search_failing_engine_isolated [where svc = stub_svc_failing
        and pre = "[(''google'', stub_engine google_results)]" and name = "''bing''"
        and engine = failing_engine and post = "[(''duckduckgo'', stub_engine duckduckgo_results)]"
        and q = "''weather''" and kw = with_fetch and e = "OtherError ''503 Service Unavailable''"]
    by simp
qed

text \<open>
  C3. \<open>_fetch_content\<close> on a list of results returns a list of the same length, and the
  result at each place is the input's result at that place, either as it was (content
  kept as it was, unset when it was unset) or with a content value put in.
\<close>

theorem fetch_content_keeps_results:
  "length (fst (priv_fetch_content svc (ResultList rs))) = length rs \<and>
   (\<forall>i<length rs.
      fst (priv_fetch_content svc (ResultList rs)) ! i = rs ! i \<or>
      (\<exists>c. fst (priv_fetch_content svc (ResultList rs)) ! i = (rs ! i)\<lparr>content := c\<rparr>))"
  by (auto simp: priv_fetch_content_def priv_fetch_content_by_search_result_def
      split: sum.splits list.splits)

theorem fetch_content_keeps_results_witness:
  "length (fst (priv_fetch_content stub_svc (ResultList google_results))) = 2 \<and>
   fst (priv_fetch_content stub_svc (ResultList google_results)) ! 0 =
     (google_results ! 0)\<lparr>content := Some ''summary''\<rparr> \<and>
   fst (priv_fetch_content stub_svc (ResultList google_results)) ! 1 =
     (google_results ! 1)\<lparr>content := Some ''summary''\<rparr> \<and>
   fst (priv_fetch_content (stub_svc\<lparr>fetcher := failing_fetcher\<rparr>) (ResultList google_results)) =
     google_results"
proof -
  have "length google_results = 2"
    by (simp add: google_results_def)
  then show ?thesis
    using fetch_content_keeps_results [of stub_svc google_results]
      fetch_content_keeps_results [of "stub_svc\<lparr>fetcher := failing_fetcher\<rparr>" google_results]
    by (simp add: stub_defs run_defs)
qed

text \<open>
  C4, as amended. With enrichment requested, \<open>search\<close> enriches the results of each engine
  in a batch of its own, right after that engine's search and before the next engine is
  searched: the log is, engine by engine, the search and then, when the search
  succeeded, one gather over that engine's links. The list returned is the one that
  enriching the concatenation of all engines' indexed results in one batch returns, the
  fetcher and the completion client being functions of the link and of the page text.
\<close>

theorem search_enriches_per_engine:
  assumes "get_fetch_content kw"
  shows "fst (search svc q kw) = fst (spec_search svc q kw) \<and>
     snd (search svc q kw) =
       concat (map (\<lambda>(name, engine). case engine q kw of
           Inl e \<Rightarrow> [EngineSearch name q]
         | Inr rs \<Rightarrow> [EngineSearch name q, Gather (map link rs)]) (engines svc))"
proof -
  have "fst (spec_search svc q kw) =
      map (priv_fetch_content_by_search_result svc) (fst (spec_fan_out q kw (engines svc)))"
    using assms by (simp add: spec_search_def priv_fetch_content_def split: prod.splits)
  also have "\<dots> = fst (search svc q kw)"
    unfolding search_def search_loop_fetch_eq [OF assms] spec_fan_out_eq
    by (rule map_concat_engines)
  finally show ?thesis
    using search_loop_fetch_log [OF assms, of svc q "engines svc"] by (simp add: search_def)
qed

theorem search_enriches_per_engine_witness:
  "get_fetch_content with_fetch \<and>
   fst (search stub_svc ''weather'' with_fetch) = fst (spec_search stub_svc ''weather'' with_fetch) \<and>
   fst (search stub_svc ''weather'' with_fetch) =
     [(stub_result ''Google'' ''http://a'')\<lparr>content := Some ''summary'', index := Some 0\<rparr>,
      (stub_result ''Google'' ''http://b'')\<lparr>content := Some ''summary'', index := Some 1\<rparr>,
      (stub_result ''DuckDuckGo'' ''http://c'')\<lparr>content := Some ''summary'', index := Some 0\<rparr>]"
proof -
  have h: "get_fetch_content with_fetch"
    by (simp add: stub_defs)
  have r: "fst (search stub_svc ''weather'' with_fetch) =
     [(stub_result ''Google'' ''http://a'')\<lparr>content := Some ''summary'', index := Some 0\<rparr>,
      (stub_result ''Google'' ''http://b'')\<lparr>content := Some ''summary'', index := Some 1\<rparr>,
      (stub_result ''DuckDuckGo'' ''http://c'')\<lparr>content := Some ''summary'', index := Some 0\<rparr>]"
    by (simp add: stub_defs run_defs)
  show ?thesis
    using h r search_enriches_per_engine [where kw = with_fetch and svc = stub_svc
        and q = "''weather''"]
    by simp
qed

text \<open>
  C4, as stated, fails. With two engines the source runs Google's search, a gather over
  Google's two links, DuckDuckGo's search and a second gather, where the claim has both
  searches first and then a single gather over all three links.
\<close>

theorem search_single_batch_counterexample:
  "snd (search stub_svc ''weather'' with_fetch) =
     [EngineSearch ''google'' ''weather'', Gather [''http://a'', ''http://b''],
      EngineSearch ''duckduckgo'' ''weather'', Gather [''http://c'']] \<and>
   snd (spec_search stub_svc ''weather'' with_fetch) =
     [EngineSearch ''google'' ''weather'', EngineSearch ''duckduckgo'' ''weather'',
      Gather [''http://a'', ''http://b'', ''http://c'']] \<and>
   search stub_svc ''weather'' with_fetch \<noteq> spec_search stub_svc ''weather'' with_fetch"
proof -
  have a: "snd (search stub_svc ''weather'' with_fetch) =
     [EngineSearch ''google'' ''weather'', Gather [''http://a'', ''http://b''],
      EngineSearch ''duckduckgo'' ''weather'', Gather [''http://c'']]"
    by (simp add: stub_defs run_defs)
  have b: "snd (spec_search stub_svc ''weather'' with_fetch) =
     [EngineSearch ''google'' ''weather'', EngineSearch ''duckduckgo'' ''weather'',
      Gather [''http://a'', ''http://b'', ''http://c'']]"
    by (simp add: stub_defs spec_search_def priv_fetch_content_def assign_index_def)
  have "snd (search stub_svc ''weather'' with_fetch) \<noteq>
      snd (spec_search stub_svc ''weather'' with_fetch)"
    unfolding a b by simp
  then have "search stub_svc ''weather'' with_fetch \<noteq> spec_search stub_svc ''weather'' with_fetch"
    by auto
  with a b show ?thesis by simp
qed

text \<open>
  C5. When fetching the linked page raises, or the page is fetched and the completion
  call raises, \<open>_fetch_content_by_search_result\<close> returns the result it was given,
  unchanged; a content field that was unset is still unset.
\<close>

theorem fetch_content_by_search_result_failure:
  assumes "fetcher svc (link r) = Inl e \<or>
     (\<exists>page. fetcher svc (link r) = Inr page \<and>
        llm_cli svc [(''system'', system_prompt), (''user'', clean_text page)] = Inl e)"
  shows "priv_fetch_content_by_search_result svc r = r \<and>
     (content r = None \<longrightarrow> content (priv_fetch_content_by_search_result svc r) = None)"
  using assms by (auto simp: priv_fetch_content_by_search_result_def)

theorem fetch_content_by_search_result_failure_witness:
  "fetcher (OmniSearchService_init failing_fetcher stub_llm) (link (stub_result ''Google'' ''http://a'')) =
     Inl (OtherError ''connection refused'') \<and>
   priv_fetch_content_by_search_result (OmniSearchService_init failing_fetcher stub_llm)
     (stub_result ''Google'' ''http://a'') = stub_result ''Google'' ''http://a'' \<and>
   llm_cli (OmniSearchService_init stub_fetcher failing_llm)
     [(''system'', system_prompt), (''user'', ''hi'')] = Inl (OtherError ''rate limit'') \<and>
   priv_fetch_content_by_search_result (OmniSearchService_init stub_fetcher failing_llm)
     (stub_result ''Google'' ''http://a'') = stub_result ''Google'' ''http://a'' \<and>
   content (stub_result ''Google'' ''http://a'') = None \<and>
   content (priv_fetch_content_by_search_result (OmniSearchService_init stub_fetcher failing_llm)
     (stub_result ''Google'' ''http://a'')) = None"
proof -
  have h: "fetcher (OmniSearchService_init failing_fetcher stub_llm)
      (link (stub_result ''Google'' ''http://a'')) = Inl (OtherError ''connection refused'')"
    by (simp add: OmniSearchService_init_def failing_fetcher_def)
  have f: "fetcher (OmniSearchService_init stub_fetcher failing_llm)
      (link (stub_result ''Google'' ''http://a'')) =
      Inr \<lparr>url = ''http://a'', raw_content = ''<p>hi</p>'', clean_text = ''hi'',
        status_code = 200, error = ''''\<rparr>"
    by (simp add: OmniSearchService_init_def stub_fetcher_def stub_result_def)
  have l: "llm_cli (OmniSearchService_init stub_fetcher failing_llm)
      [(''system'', system_prompt), (''user'', ''hi'')] = Inl (OtherError ''rate limit'')"
    by (simp add: OmniSearchService_init_def failing_llm_def)
  have c: "content (stub_result ''Google'' ''http://a'') = None"
    by (simp add: stub_result_def)
  show ?thesis
    using h f l c
      fetch_content_by_search_result_failure [where svc = "OmniSearchService_init failing_fetcher stub_llm"
        and r = "stub_result ''Google'' ''http://a''" and e = "OtherError ''connection refused''"]
      fetch_content_by_search_result_failure [where svc = "OmniSearchService_init stub_fetcher failing_llm"
        and r = "stub_result ''Google'' ''http://a''" and e = "OtherError ''rate limit''"]
    by simp
qed

text \<open>
  C8. For an engine name that is not a key of the registry, \<open>search_by_engine\<close> raises
  \<open>ValueError\<close>, which nothing in it catches, and leaves the service, the registry with it,
  as it was.
\<close>

theorem search_by_engine_unconfigured:
  assumes "engine_name \<notin> fst ` set (engines svc)"
  shows "search_by_engine svc engine_name q kw =
     (Inl (ValueError (''Engine '' @ engine_name @ '' not configured'')), svc)"
  using assms by (simp add: search_by_engine_def)

theorem search_by_engine_unconfigured_witness:
  "''bing'' \<notin> fst ` set (engines stub_svc) \<and>
   search_by_engine stub_svc ''bing'' ''weather'' no_fetch =
     (Inl (ValueError ''Engine bing not configured''), stub_svc)"
proof -
  have h: "''bing'' \<notin> fst ` set (engines stub_svc)"
    by (simp add: stub_svc_def add_engine_def OmniSearchService_init_def)
  show ?thesis
    using h search_by_engine_unconfigured [where svc = stub_svc and engine_name = "''bing''"
        and q = "''weather''" and kw = no_fetch]
    by simp
qed

text \<open>
  C9. \<open>_fetch_content\<close> on a list of results changes the content field only: the list
  returned has the length of the input and, at each place, the title, link, snippet,
  source engine and index of the input's result at that place.
\<close>

theorem fetch_content_frame:
  "length (fst (priv_fetch_content svc (ResultList rs))) = length rs \<and>
   (\<forall>i<length rs.
      title (fst (priv_fetch_content svc (ResultList rs)) ! i) = title (rs ! i) \<and>
      link (fst (priv_fetch_content svc (ResultList rs)) ! i) = link (rs ! i) \<and>
      snippet (fst (priv_fetch_content svc (ResultList rs)) ! i) = snippet (rs ! i) \<and>
      source_engine (fst (priv_fetch_content svc (ResultList rs)) ! i) = source_engine (rs ! i) \<and>
      index (fst (priv_fetch_content svc (ResultList rs)) ! i) = index (rs ! i))"
  by (auto simp: priv_fetch_content_def priv_fetch_content_by_search_result_def
      split: sum.splits list.splits)

theorem fetch_content_frame_witness:
  "length (fst (priv_fetch_content stub_svc (ResultList (assign_index google_results)))) = 2 \<and>
   map title (fst (priv_fetch_content stub_svc (ResultList (assign_index google_results)))) =
     [''t'', ''t''] \<and>
   map link (fst (priv_fetch_content stub_svc (ResultList (assign_index google_results)))) =
     [''http://a'', ''http://b''] \<and>
   map index (fst (priv_fetch_content stub_svc (ResultList (assign_index google_results)))) =
     [Some 0, Some 1] \<and>
   map content (fst (priv_fetch_content stub_svc (ResultList (assign_index google_results)))) =
     [Some ''summary'', Some ''summary'']"
proof -
  have "length (assign_index google_results) = 2"
    by (simp add: google_results_def assign_index_def)
  then show ?thesis
    using fetch_content_frame [of stub_svc "assign_index google_results"]
    by (simp add: stub_defs run_defs)
qed


section \<open>Claims about the HTTP layer\<close>








text \<open>
  C7, at the input where the code departs from it: with \<open>API_KEY\<close> not set, a
  \<open>POST /v1/search\<close> that carries no \<open>Authorization\<close> header is answered 403 by the bearer
  dependency, before \<open>auth\<close> and the handler run.
\<close>

theorem search_without_credentials_rejected:
  "app co (ev\<lparr>API_KEY := None\<rparr>) now elapsed
     \<lparr>http_method = POST, url_path = ''/v1/search'', authorization = None, json_body = b\<rparr> db =
   (Reply 403 (Detail ''Not authenticated''), db, [])"
  by (simp add: app_def security_def get_authorization_scheme_param_def)

text \<open>The parts of C7 that hold on the code.\<close>

lemma root_and_health_unauthenticated:
  "app co ev now elapsed
     \<lparr>http_method = GET, url_path = ''/'', authorization = a, json_body = b\<rparr> db =
     (Reply 200 (Text (''Hello World'' @ [CHR 0x0A])), db, []) \<and>
   app co ev now elapsed
     \<lparr>http_method = HEAD, url_path = ''/v1/health'', authorization = a, json_body = b\<rparr> db =
     (Reply 200 NoBody, db, [])"
  by (simp add: app_def)

lemma auth_search_route:
  "auth ev ''/v1/search'' c =
    (if API_KEY ev = None \<or> API_KEY ev = Some '''' then Inr ()
     else if scheme c = ''Bearer'' \<and> Some (credentials c) = API_KEY ev then Inr ()
     else Inl (HTTPException 403 ''Forbidden''))"
  by (auto simp: auth_def split: option.splits)

lemma security_bearer_header:
  "tok \<noteq> '''' \<Longrightarrow>
   security (Some (''Bearer '' @ tok)) = Inr \<lparr>scheme = ''Bearer'', credentials = tok\<rparr>"
  by (simp add: security_def get_authorization_scheme_param_def ascii_lower_def)

lemma search_with_any_bearer_when_no_key:
  "security a = Inr c \<Longrightarrow> API_KEY ev = None \<Longrightarrow>
   fst (app co ev now elapsed
     \<lparr>http_method = POST, url_path = ''/v1/search'', authorization = a, json_body = b\<rparr> db) =
   (case fst (post_v1_search co ev now elapsed b db) of
      Inl e \<Rightarrow> Reply 500 (Detail ''Internal Server Error'')
    | Inr resp \<Rightarrow> Reply 200 (Json resp))"
  by (simp add: app_def auth_search_route split: prod.splits sum.splits)



end
